theory Spec2Isabelle
  imports Main
begin

section \<open>httpclient.py: retrieving web resources over http\<close>

subsection \<open>Exceptions\<close>

text \<open>
  The exceptions that can leave the code of \<^verbatim>\<open>httpclient.py\<close>.
  \<^verbatim>\<open>IncompleteRead partial expected\<close> is \<^verbatim>\<open>httplib.IncompleteRead(partial, expected)\<close>;
  \<^verbatim>\<open>NameError n\<close> is the interpreter's error for the unbound name \<^verbatim>\<open>n\<close>;
  \<^verbatim>\<open>AttributeError\<close> is what \<^verbatim>\<open>self.fp.readline()\<close> raises once \<^verbatim>\<open>self.fp\<close> is \<^verbatim>\<open>None\<close>;
  \<^verbatim>\<open>SocketError\<close> is a transport failure while reading from the connection.
\<close>

datatype exn =
    IncompleteRead string "int option"
  | NameError string
  | AttributeError
  | SocketError

subsection \<open>The response handle of httplib\<close>

text \<open>
  \<^verbatim>\<open>DetailedHTTPResponse\<close> extends \<^verbatim>\<open>httplib.HTTPResponse\<close>. The fields are those of the
  library class that the code reads: the status line, the header list, \<^verbatim>\<open>chunked\<close>,
  \<^verbatim>\<open>length\<close> (the Content-Length, if any), \<^verbatim>\<open>_method == 'HEAD'\<close>, and the file object
  \<^verbatim>\<open>fp\<close>. The file object is the bytes that the server still delivers; \<^verbatim>\<open>fp = None\<close> is the
  closed handle (\<^verbatim>\<open>close()\<close> sets \<^verbatim>\<open>self.fp = None\<close>). \<^verbatim>\<open>broken\<close> says how the delivery
  ends: with an orderly end of file, or with a transport error raised by the read that
  runs past the last byte.
\<close>

record response =
  version :: int
  status :: int
  reason :: string
  msg_headers :: "(string \<times> string) list"
  chunked :: bool
  length_left :: "nat option"
  method_head :: bool
  fp :: "string option"
  broken :: bool

abbreviation LF :: char where "LF \<equiv> CHR 0x0A"
abbreviation CR :: char where "CR \<equiv> CHR 0x0D"

definition CRLF :: string where
  "CRLF = [CR, LF]"

text \<open>\<^verbatim>\<open>HTTPResponse.close\<close>: close the file object and forget it.\<close>

definition close :: "response \<Rightarrow> response" where
  "close r = r\<lparr>fp := None\<rparr>"

text \<open>
  \<^verbatim>\<open>self.fp.readline()\<close>: the bytes up to and including the next line feed; at the end of
  the delivery whatever is left (the empty string at end of file).
\<close>

definition readline :: "response \<Rightarrow> (exn + string) \<times> response" where
  "readline r =
     (case fp r of
        None \<Rightarrow> (Inl AttributeError, r)
      | Some buf \<Rightarrow>
          if LF \<in> set buf then
            (let line = takeWhile (\<lambda>c. c \<noteq> LF) buf @ [LF]
             in (Inr line, r\<lparr>fp := Some (drop (length line) buf)\<rparr>))
          else if broken r then (Inl SocketError, r\<lparr>fp := Some []\<rparr>)
          else (Inr buf, r\<lparr>fp := Some []\<rparr>))"

text \<open>
  \<^verbatim>\<open>HTTPResponse._safe_read(amt)\<close>: read exactly \<^verbatim>\<open>amt\<close> bytes; the loop
  \<^verbatim>\<open>while amt > 0\<close> does not touch the file object for \<^verbatim>\<open>amt <= 0\<close>, and raises
  \<^verbatim>\<open>IncompleteRead(read so far, missing)\<close> when the delivery ends early.
\<close>

definition safe_read :: "int \<Rightarrow> response \<Rightarrow> (exn + string) \<times> response" where
  "safe_read amt r =
     (if amt \<le> 0 then (Inr [], r)
      else
        (case fp r of
           None \<Rightarrow> (Inl AttributeError, r)
         | Some buf \<Rightarrow>
             if amt \<le> int (length buf) then
               (Inr (take (nat amt) buf), r\<lparr>fp := Some (drop (nat amt) buf)\<rparr>)
             else if broken r then (Inl SocketError, r\<lparr>fp := Some []\<rparr>)
             else (Inl (IncompleteRead buf (Some (amt - int (length buf)))), r\<lparr>fp := Some []\<rparr>)))"

text \<open>
  \<^verbatim>\<open>HTTPResponse.read()\<close> with no amount, as \<^verbatim>\<open>read_chunks\<close> calls it on a response that
  is not chunked (Python 2.7): nothing on a closed handle; nothing, and close, for a
  HEAD request; otherwise everything up to the end of file, or exactly \<^verbatim>\<open>length\<close> bytes,
  and then close. An \<^verbatim>\<open>IncompleteRead\<close> of \<^verbatim>\<open>_safe_read\<close> closes before it is raised
  again; a transport error of the file object is not caught and leaves the handle open.
\<close>

definition httplib_read :: "response \<Rightarrow> (exn + string) \<times> response" where
  "httplib_read r =
     (case fp r of
        None \<Rightarrow> (Inr [], r)
      | Some buf \<Rightarrow>
          if method_head r then (Inr [], close r)
          else
            (case length_left r of
               None \<Rightarrow>
                 if broken r then (Inl SocketError, r\<lparr>fp := Some []\<rparr>)
                 else (Inr buf, close r)
             | Some n \<Rightarrow>
                 (case safe_read (int n) r of
                    (Inl (IncompleteRead p e), r1) \<Rightarrow> (Inl (IncompleteRead p e), close r1)
                  | (Inl e, r1) \<Rightarrow> (Inl e, r1)
                  | (Inr s, r1) \<Rightarrow> (Inr s, close (r1\<lparr>length_left := Some 0\<rparr>)))))"

subsection \<open>The builtin \<^verbatim>\<open>int(line, 16)\<close>\<close>

text \<open>
  Python's \<^verbatim>\<open>int(s, 16)\<close> on a byte string: white space is stripped at both ends, then
  come an optional sign, an optional \<^verbatim>\<open>0x\<close> or \<^verbatim>\<open>0X\<close> that a hexadecimal digit follows,
  and one or more hexadecimal digits. Anything else is a \<^verbatim>\<open>ValueError\<close>, here \<open>None\<close>.
  The result is an unbounded integer.
\<close>

definition isspace :: "char \<Rightarrow> bool" where
  "isspace c \<longleftrightarrow> c \<in> {CHR '' '', CHR 0x09, CHR 0x0A, CHR 0x0B, CHR 0x0C, CHR 0x0D}"

definition digit_value :: "char \<Rightarrow> nat option" where
  "digit_value c =
     (let n = of_char c :: nat in
      if 48 \<le> n \<and> n \<le> 57 then Some (n - 48)
      else if 97 \<le> n \<and> n \<le> 102 then Some (n - 87)
      else if 65 \<le> n \<and> n \<le> 70 then Some (n - 55)
      else None)"

definition hexdigit :: "char \<Rightarrow> bool" where
  "hexdigit c \<longleftrightarrow> digit_value c \<noteq> None"

definition hex_value :: "string \<Rightarrow> nat" where
  "hex_value ds = foldl (\<lambda>acc c. 16 * acc + the (digit_value c)) 0 ds"

definition strip_sign :: "string \<Rightarrow> bool \<times> string" where
  "strip_sign s =
     (case s of
        [] \<Rightarrow> (False, [])
      | c # t \<Rightarrow>
          if c = CHR ''-'' then (True, t)
          else if c = CHR ''+'' then (False, t)
          else (False, s))"

definition strip_0x :: "string \<Rightarrow> string" where
  "strip_0x s =
     (case s of
        z # x # d # t \<Rightarrow>
          if z = CHR ''0'' \<and> (x = CHR ''x'' \<or> x = CHR ''X'') \<and> hexdigit d then d # t else s
      | _ \<Rightarrow> s)"

definition int16 :: "string \<Rightarrow> int option" where
  "int16 s =
     (let body = rev (dropWhile isspace (rev (dropWhile isspace s)));
          (neg, unsigned) = strip_sign body;
          ds = strip_0x unsigned
      in if ds \<noteq> [] \<and> list_all hexdigit ds
         then Some (if neg then - int (hex_value ds) else int (hex_value ds))
         else None)"

subsection \<open>DetailedHTTPResponse\<close>

text \<open>\<^verbatim>\<open>str.find\<close> for a single character: the first position, or \<open>-1\<close>.\<close>

definition find_char :: "char \<Rightarrow> string \<Rightarrow> int" where
  "find_char c s = (if c \<in> set s then int (length (takeWhile (\<lambda>d. d \<noteq> c) s)) else - 1)"

text \<open>
  \<^verbatim>\<open>DetailedHTTPResponse._read_chunk_size\<close>. The position of the semicolon is bound to
  \<^verbatim>\<open>chunk_extensions_pos\<close>, the slice reads \<^verbatim>\<open>extention_pos\<close>, a name bound nowhere in the
  module: evaluating the slice raises \<^verbatim>\<open>NameError\<close>. The result is the exception, or the
  value returned: \<open>None\<close> for Python's \<^verbatim>\<open>None\<close>.
\<close>

definition read_chunk_size :: "string \<Rightarrow> exn + int option" where
  "read_chunk_size line =
     (let chunk_extensions_pos = find_char (CHR '';'') line
      in if chunk_extensions_pos \<noteq> - 1 then Inl (NameError ''extention_pos'')
         else (case int16 line of
                 None \<Rightarrow> Inr None
               | Some chunk_size \<Rightarrow> Inr (Some chunk_size)))"

text \<open>
  Both loops of \<^verbatim>\<open>read_chunks\<close> end because every round that goes on has taken at least
  one byte from the file object: the measure is the number of bytes not yet delivered.
\<close>

definition stream_size :: "response \<Rightarrow> nat" where
  "stream_size r = (case fp r of None \<Rightarrow> 0 | Some buf \<Rightarrow> length buf)"

text \<open>
  The first \<^verbatim>\<open>while True\<close> of \<^verbatim>\<open>read_chunks\<close>: read a size line, stop at size zero, else
  read the chunk and the two bytes after it. \<^verbatim>\<open>chunks\<close> is the list built so far.
\<close>

function read_chunk_loop :: "string list \<Rightarrow> response \<Rightarrow> (exn + string list) \<times> response" where
  "read_chunk_loop chunks r =
     (case readline r of
        (Inl e, r1) \<Rightarrow> (Inl e, r1)
      | (Inr line, r1) \<Rightarrow>
          (case read_chunk_size line of
             Inl e \<Rightarrow> (Inl e, r1)
           | Inr None \<Rightarrow> (Inl (IncompleteRead (concat chunks) None), r1)
           | Inr (Some chunk_size) \<Rightarrow>
               if chunk_size = 0 then (Inr chunks, r1)
               else (case safe_read chunk_size r1 of
                       (Inl e, r2) \<Rightarrow> (Inl e, r2)
                     | (Inr data, r2) \<Rightarrow>
                         (case safe_read 2 r2 of
                            (Inl e, r3) \<Rightarrow> (Inl e, r3)
                          | (Inr crlf, r3) \<Rightarrow> read_chunk_loop (chunks @ [data]) r3))))"
  by pat_completeness auto
termination
proof (relation "measure (\<lambda>(chunks, r). stream_size r)", goal_cases)
  case 1
  show ?case by simp
next
  case prems: (2 chunks r x r1 line y chunk_size xa r2 data xb r3 crlf)
  have safe_read_shrinks: "stream_size b \<le> stream_size a"
    if "safe_read n a = (Inr s, b)" for n a s b
    using that by (auto simp: safe_read_def stream_size_def split: if_splits option.splits)
  from prems have rl: "readline r = (Inr line, r1)" by simp
  from prems have "read_chunk_size line = Inr (Some chunk_size)" by simp
  then have ne: "line \<noteq> []"
    by (auto simp: read_chunk_size_def find_char_def int16_def strip_sign_def strip_0x_def)
  from rl obtain buf where b: "fp r = Some buf"
    by (auto simp: readline_def split: option.splits)
  have "stream_size r1 < stream_size r"
  proof (cases "LF \<in> set buf")
    case True
    then have "buf \<noteq> []" by auto
    then have "length buf - Suc (length (takeWhile (\<lambda>c. c \<noteq> LF) buf)) < length buf"
      by simp
    with rl b True show ?thesis by (auto simp: readline_def stream_size_def Let_def)
  next
    case False
    with rl b ne show ?thesis by (auto simp: readline_def stream_size_def split: if_splits)
  qed
  moreover from prems have "safe_read chunk_size r1 = (Inr data, r2)" by simp
  then have "stream_size r2 \<le> stream_size r1" by (rule safe_read_shrinks)
  moreover from prems have "safe_read 2 r2 = (Inr crlf, r3)" by simp
  then have "stream_size r3 \<le> stream_size r2" by (rule safe_read_shrinks)
  ultimately show ?case by simp
qed

text \<open>The second loop: lines are read and dropped up to an empty line or the end of file.\<close>

function skip_trailers :: "response \<Rightarrow> (exn + unit) \<times> response" where
  "skip_trailers r =
     (case readline r of
        (Inl e, r1) \<Rightarrow> (Inl e, r1)
      | (Inr line, r1) \<Rightarrow>
          if line = [] \<or> line = CRLF then (Inr (), r1) else skip_trailers r1)"
  by pat_completeness auto
termination
proof (relation "measure stream_size", goal_cases)
  case 1
  show ?case by simp
next
  case prems: (2 r x r1 line)
  from prems have rl: "readline r = (Inr line, r1)" and ne: "line \<noteq> []" by simp_all
  from rl obtain buf where b: "fp r = Some buf"
    by (auto simp: readline_def split: option.splits)
  have "stream_size r1 < stream_size r"
  proof (cases "LF \<in> set buf")
    case True
    then have "buf \<noteq> []" by auto
    then have "length buf - Suc (length (takeWhile (\<lambda>c. c \<noteq> LF) buf)) < length buf"
      by simp
    with rl b True show ?thesis by (auto simp: readline_def stream_size_def Let_def)
  next
    case False
    with rl b ne show ?thesis by (auto simp: readline_def stream_size_def split: if_splits)
  qed
  then show ?case by simp
qed

declare read_chunk_loop.simps [simp del] skip_trailers.simps [simp del]

text \<open>
  \<^verbatim>\<open>DetailedHTTPResponse.read_chunks\<close>. The \<^verbatim>\<open>try ... finally: self.close()\<close> is inside the
  \<^verbatim>\<open>else\<close> branch: it covers the two loops and nothing of the branch that calls
  \<^verbatim>\<open>self.read()\<close>. The result is the exception raised or the list returned, and the
  response handle as the call leaves it.
\<close>

definition read_chunks :: "response \<Rightarrow> (exn + string list) \<times> response" where
  "read_chunks r =
     (if \<not> chunked r then
        (case httplib_read r of
           (Inl e, r1) \<Rightarrow> (Inl e, r1)
         | (Inr body, r1) \<Rightarrow> (Inr [body], r1))
      else
        (case read_chunk_loop [] r of
           (Inl e, r1) \<Rightarrow> (Inl e, close r1)
         | (Inr chunks, r1) \<Rightarrow>
             (case skip_trailers r1 of
                (Inl e, r2) \<Rightarrow> (Inl e, close r2)
              | (Inr u, r2) \<Rightarrow> (Inr chunks, close r2))))"

subsection \<open>Requests, archived responses, the archive and the miss tracker\<close>

text \<open>
  Modelled from the spec: \<^verbatim>\<open>httparchive.ArchivedHttpRequest\<close> is not part of the source
  at hand. The spec's Request is the identity of an HTTP request: method, host, path,
  body and headers; it is immutable and is the key of the archive. The fields are named
  as \<^verbatim>\<open>RealHttpFetch\<close> reads them.
\<close>

record request =
  command :: string
  host :: string
  path :: string
  request_body :: "string option"
  headers :: "(string \<times> string) list"

text \<open>
  Modelled from the spec: \<^verbatim>\<open>httparchive.ArchivedHttpResponse\<close>, the persisted unit:
  protocol version, status code, reason, header list and body chunks, in the order of the
  constructor call of \<^verbatim>\<open>RecordHttpArchiveFetch\<close>.
\<close>

datatype archived_response =
  ArchivedHttpResponse
    (archived_version: int)
    (archived_status: int)
    (archived_reason: string)
    (archived_headers: "(string \<times> string) list")
    (response_data: "string list")

text \<open>
  Modelled from the spec: the archive is a mapping from Request to ArchivedResponse with
  membership test, get and set (a Python \<^verbatim>\<open>dict\<close>), and two queries,
  \<^verbatim>\<open>find_closest_request\<close> and \<^verbatim>\<open>diff\<close>, whose algorithms are outside the source at hand:
  they are parameters below.
\<close>

type_synonym archive = "request \<rightharpoonup> archived_response"

text \<open>What the code writes with \<^verbatim>\<open>logging\<close>: one constructor for each message.\<close>

datatype level = DEBUG | INFO | WARNING | ERROR | CRITICAL

datatype message =
    RealHttpRequest string string
  | UnableToFindHostIp string
  | CouldNotFetch request exn
  | Traceback exn
  | RepeatedRequestFound request "request option"
  | FailedToInject request
  | RequestContent string
  | Recorded request
  | UsingClosestMatch request request
  | CouldNotReplay request "string option"

text \<open>
  Everything outside the fetchers that a fetch reads or changes. The archive and the miss
  tracker are objects that the fetchers hold by reference
  (\<^verbatim>\<open>ControllableHttpArchiveFetch\<close> hands the same two objects to both of its fetchers).
  \<^verbatim>\<open>cache_miss_calls\<close> lists the calls of \<^verbatim>\<open>record_request\<close> the tracker has received, as
  (request, is_record_mode, is_cache_miss); \<^verbatim>\<open>real_fetches\<close> lists the calls of
  \<^verbatim>\<open>RealHttpFetch.__call__\<close>; \<^verbatim>\<open>logged\<close> lists the log records.
\<close>

record world =
  http_archive :: archive
  cache_miss_calls :: "(request \<times> bool \<times> bool) list"
  real_fetches :: "(request \<times> (string \<times> string) list) list"
  logged :: "(level \<times> message) list"

text \<open>
  The collaborators a fetch calls. \<^verbatim>\<open>real_dns_lookup\<close> resolves a host to an address or
  to nothing. \<^verbatim>\<open>getresponse\<close> stands for the network: connecting to the address, sending
  the request and reading the status line and headers gives an exception or a response
  handle whose body is still to be read. \<^verbatim>\<open>inject_deterministic_script\<close> rewrites an
  archived response in place and says whether it raised \<^verbatim>\<open>InjectionFailedException\<close>,
  and with which text. \<^verbatim>\<open>find_closest_request\<close> and \<^verbatim>\<open>diff\<close> are the archive's queries.
\<close>

record env =
  real_dns_lookup :: "string \<Rightarrow> string option"
  getresponse :: "string \<Rightarrow> request \<Rightarrow> (string \<times> string) list \<Rightarrow> exn + response"
  inject_deterministic_script :: "archived_response \<Rightarrow> string option \<times> archived_response"
  find_closest_request :: "archive \<Rightarrow> request \<Rightarrow> bool \<Rightarrow> request option"
  diff :: "archive \<Rightarrow> request \<Rightarrow> string option"

definition log :: "level \<Rightarrow> message \<Rightarrow> world \<Rightarrow> world" where
  "log l m w = w\<lparr>logged := logged w @ [(l, m)]\<rparr>"

text \<open>Modelled from the spec: the tracker is a sink; \<^verbatim>\<open>record_request\<close> stores the call.\<close>

definition record_request :: "request \<Rightarrow> bool \<Rightarrow> bool \<Rightarrow> world \<Rightarrow> world" where
  "record_request request is_record_mode is_cache_miss w =
     w\<lparr>cache_miss_calls := cache_miss_calls w @ [(request, is_record_mode, is_cache_miss)]\<rparr>"

subsection \<open>RealHttpFetch\<close>

text \<open>
  \<^verbatim>\<open>RealHttpFetch.__call__\<close>. \<^verbatim>\<open>not host_ip\<close> holds for \<^verbatim>\<open>None\<close> and for the empty string.
  \<^verbatim>\<open>except Exception\<close> catches whatever the connection or \<^verbatim>\<open>read_chunks\<close> raises. The
  pair \<^verbatim>\<open>(None, None)\<close> is \<open>None\<close>.
\<close>

definition RealHttpFetch_call ::
  "env \<Rightarrow> request \<Rightarrow> (string \<times> string) list \<Rightarrow> world \<Rightarrow> (response \<times> string list) option \<times> world" where
  "RealHttpFetch_call e request hdrs w =
     (let w1 = log DEBUG (RealHttpRequest (host request) (path request))
                 (w\<lparr>real_fetches := real_fetches w @ [(request, hdrs)]\<rparr>);
          unresolved = (None, log CRITICAL (UnableToFindHostIp (host request)) w1);
          failed = (\<lambda>x. (None, log CRITICAL (Traceback x) (log CRITICAL (CouldNotFetch request x) w1)))
      in case real_dns_lookup e (host request) of
           None \<Rightarrow> unresolved
         | Some host_ip \<Rightarrow>
             if host_ip = [] then unresolved
             else
               (case getresponse e host_ip request hdrs of
                  Inl x \<Rightarrow> failed x
                | Inr response \<Rightarrow>
                    (case read_chunks response of
                       (Inl x, response1) \<Rightarrow> failed x
                     | (Inr chunks, response1) \<Rightarrow> (Some (response1, chunks), w1))))"

subsection \<open>RecordHttpArchiveFetch\<close>

text \<open>
  The fields of a \<^verbatim>\<open>RecordHttpArchiveFetch\<close> that are its own. \<^verbatim>\<open>cache_misses\<close> is whether a
  tracker was given (\<^verbatim>\<open>if self.cache_misses\<close>). \<^verbatim>\<open>self.previous_request\<close> is set to
  \<^verbatim>\<open>None\<close> by the constructor and never assigned again: \<^verbatim>\<open>previous_request = request\<close> in
  \<^verbatim>\<open>__call__\<close> binds a local name.
\<close>

record RecordHttpArchiveFetch =
  use_deterministic_script :: bool
  record_cache_misses :: bool
  previous_request :: "request option"

definition RecordHttpArchiveFetch_init :: "bool \<Rightarrow> bool \<Rightarrow> RecordHttpArchiveFetch" where
  "RecordHttpArchiveFetch_init use_script misses =
     \<lparr>use_deterministic_script = use_script, record_cache_misses = misses,
      previous_request = None\<rparr>"

definition RecordHttpArchiveFetch_call ::
  "env \<Rightarrow> RecordHttpArchiveFetch \<Rightarrow> request \<Rightarrow> (string \<times> string) list \<Rightarrow> world
   \<Rightarrow> archived_response option \<times> world" where
  "RecordHttpArchiveFetch_call e self request request_headers w =
     (let w1 = (if record_cache_misses self then record_request request True False w else w)
      in case http_archive w1 request of
           Some archived \<Rightarrow>
             (Some archived, log DEBUG (RepeatedRequestFound request (previous_request self)) w1)
         | None \<Rightarrow>
             (case RealHttpFetch_call e request request_headers w1 of
                (None, w2) \<Rightarrow> (None, w2)
              | (Some (response, response_chunks), w2) \<Rightarrow>
                  (let created = ArchivedHttpResponse (version response) (status response)
                                   (reason response) (msg_headers response) response_chunks;
                       (archived_http_response, w3) =
                         (if use_deterministic_script self then
                            (case inject_deterministic_script e created of
                               (None, injected) \<Rightarrow> (injected, w2)
                             | (Some err_text, injected) \<Rightarrow>
                                 (injected,
                                  log DEBUG (RequestContent err_text) (log ERROR (FailedToInject request) w2)))
                          else (created, w2));
                       w4 = log DEBUG (Recorded request) w3
                   in (Some archived_http_response,
                       w4\<lparr>http_archive := (http_archive w4)(request \<mapsto> archived_http_response)\<rparr>))))"

subsection \<open>ReplayHttpArchiveFetch\<close>

record ReplayHttpArchiveFetch =
  use_diff_on_unknown_requests :: bool
  replay_cache_misses :: bool
  use_closest_match :: bool

definition ReplayHttpArchiveFetch_init :: "bool \<Rightarrow> bool \<Rightarrow> bool \<Rightarrow> ReplayHttpArchiveFetch" where
  "ReplayHttpArchiveFetch_init use_diff misses closest =
     \<lparr>use_diff_on_unknown_requests = use_diff, replay_cache_misses = misses,
      use_closest_match = closest\<rparr>"

text \<open>
  \<^verbatim>\<open>ReplayHttpArchiveFetch.__call__\<close>. \<^verbatim>\<open>not response\<close> is \<open>response = None\<close>; \<^verbatim>\<open>if diff\<close>
  fails for \<^verbatim>\<open>None\<close> and for the empty text.
\<close>

definition ReplayHttpArchiveFetch_call ::
  "env \<Rightarrow> ReplayHttpArchiveFetch \<Rightarrow> request \<Rightarrow> (string \<times> string) list \<Rightarrow> world
   \<Rightarrow> archived_response option \<times> world" where
  "ReplayHttpArchiveFetch_call e self request request_headers w =
     (let exact = http_archive w request;
          (response, w1) =
            (if use_closest_match self \<and> exact = None then
               (case find_closest_request e (http_archive w) request True of
                  None \<Rightarrow> (exact, w)
                | Some closest_request \<Rightarrow>
                    (let closest = http_archive w closest_request
                     in (closest,
                         if closest \<noteq> None
                         then log INFO (UsingClosestMatch request closest_request) w else w)))
             else (exact, w));
          w2 = (if replay_cache_misses self
                then record_request request False (response = None) w1 else w1);
          w3 = (if response = None then
                  (let nearest =
                         (if use_diff_on_unknown_requests self
                          then (case diff e (http_archive w2) request of
                                  None \<Rightarrow> None
                                | Some d \<Rightarrow> if d = [] then None else Some d)
                          else None)
                   in log WARNING (CouldNotReplay request nearest) w2)
                else w2)
      in (response, w3))"

subsection \<open>ControllableHttpArchiveFetch\<close>

text \<open>\<^verbatim>\<open>self.fetch\<close> is one of the object's two fetchers.\<close>

datatype active = record_fetch_active | replay_fetch_active

record ControllableHttpArchiveFetch =
  record_fetch :: RecordHttpArchiveFetch
  replay_fetch :: ReplayHttpArchiveFetch
  fetch :: active

definition SetRecordMode :: "ControllableHttpArchiveFetch \<Rightarrow> ControllableHttpArchiveFetch" where
  "SetRecordMode self = self\<lparr>fetch := record_fetch_active\<rparr>"

definition SetReplayMode :: "ControllableHttpArchiveFetch \<Rightarrow> ControllableHttpArchiveFetch" where
  "SetReplayMode self = self\<lparr>fetch := replay_fetch_active\<rparr>"

text \<open>
  The constructor builds the two fetchers from the same arguments and then calls
  \<^verbatim>\<open>SetRecordMode\<close> or \<^verbatim>\<open>SetReplayMode\<close>, which is the first assignment of \<^verbatim>\<open>self.fetch\<close>;
  the field's value before that call is never read.
\<close>

definition ControllableHttpArchiveFetch_init ::
  "bool \<Rightarrow> bool \<Rightarrow> bool \<Rightarrow> bool \<Rightarrow> bool \<Rightarrow> ControllableHttpArchiveFetch" where
  "ControllableHttpArchiveFetch_init use_script use_diff use_record_mode misses closest =
     (let self = \<lparr>record_fetch = RecordHttpArchiveFetch_init use_script misses,
                  replay_fetch = ReplayHttpArchiveFetch_init use_diff misses closest,
                  fetch = replay_fetch_active\<rparr>
      in if use_record_mode then SetRecordMode self else SetReplayMode self)"

definition ControllableHttpArchiveFetch_call ::
  "env \<Rightarrow> ControllableHttpArchiveFetch \<Rightarrow> request \<Rightarrow> (string \<times> string) list \<Rightarrow> world
   \<Rightarrow> archived_response option \<times> world" where
  "ControllableHttpArchiveFetch_call e self request request_headers w =
     (case fetch self of
        record_fetch_active \<Rightarrow>
          RecordHttpArchiveFetch_call e (record_fetch self) request request_headers w
      | replay_fetch_active \<Rightarrow>
          ReplayHttpArchiveFetch_call e (replay_fetch self) request request_headers w)"

subsection \<open>The chunked wire format\<close>

text \<open>
  The input that the statements about \<^verbatim>\<open>read_chunks\<close> speak of. A size line is a
  non-empty run of hexadecimal digits, followed by CRLF; \<open>size_line_of ds n\<close> says that the
  digits \<open>ds\<close> denote \<open>n\<close>. A chunk on the wire is its size line, its bytes and a CRLF. A
  chunked body is the chunks, the size line of the zero chunk, the trailer lines, and the
  end: a blank line with whatever follows it, or the end of file.
\<close>

definition size_line_of :: "string \<Rightarrow> nat \<Rightarrow> bool" where
  "size_line_of ds n \<longleftrightarrow> ds \<noteq> [] \<and> list_all hexdigit ds \<and> hex_value ds = n"

definition frame :: "string \<times> string \<Rightarrow> string" where
  "frame x = fst x @ CRLF @ snd x @ CRLF"

definition chunked_body :: "(string \<times> string) list \<Rightarrow> string \<Rightarrow> string list \<Rightarrow> string \<Rightarrow> string" where
  "chunked_body xs z ts fin =
     concat (map frame xs) @ z @ CRLF @ concat (map (\<lambda>t. t @ CRLF) ts) @ fin"

definition well_framed :: "(string \<times> string) list \<Rightarrow> bool" where
  "well_framed xs \<longleftrightarrow> (\<forall>x \<in> set xs. size_line_of (fst x) (length (snd x)) \<and> snd x \<noteq> [])"

definition trailer_lines :: "string list \<Rightarrow> bool" where
  "trailer_lines ts \<longleftrightarrow> (\<forall>t \<in> set ts. t \<noteq> [] \<and> LF \<notin> set t)"

definition body_end :: "response \<Rightarrow> string \<Rightarrow> bool" where
  "body_end r fin \<longleftrightarrow> (fin = [] \<and> \<not> broken r) \<or> take 2 fin = CRLF"

subsection \<open>Concrete inputs\<close>

definition example_request :: request where
  "example_request =
     \<lparr>command = ''GET'', host = ''example.com'', path = ''/index'', request_body = None,
      headers = [(''accept'', ''*/*'')]\<rparr>"

definition unknown_request :: request where
  "unknown_request = example_request\<lparr>host := ''unknown.example''\<rparr>"

definition example_response :: response where
  "example_response =
     \<lparr>version = 11, status = 200, reason = ''OK'',
      msg_headers = [(''transfer-encoding'', ''chunked'')],
      chunked = True, length_left = None, method_head = False,
      fp = Some (''5'' @ CRLF @ ''hello'' @ CRLF @ ''0'' @ CRLF @ CRLF), broken = False\<rparr>"

definition example_chunks :: "(string \<times> string) list" where
  "example_chunks = [(''5'', ''hello''), (''0b'', ''wide world '')]"

definition framed_response :: response where
  "framed_response =
     example_response\<lparr>fp := Some (chunked_body example_chunks ''0'' [''Expires: never''] CRLF)\<rparr>"

text \<open>
  Two chunks and a trailer line. The size line of the second chunk has a chunk extension,
  \<^verbatim>\<open>6;q=1\<close>, as the chunked transfer coding allows.
\<close>

definition extended_chunks :: "(string \<times> string) list" where
  "extended_chunks = [(''5'', ''hello''), (''6;q=1'', ''world!'')]"

definition extended_response :: response where
  "extended_response =
     example_response\<lparr>fp := Some (chunked_body extended_chunks ''0'' [''Expires: never''] CRLF)\<rparr>"

text \<open>A chunk with a chunk extension on its size line.\<close>

definition extension_response :: response where
  "extension_response =
     example_response
       \<lparr>fp := Some (''5;name=value'' @ CRLF @ ''hello'' @ CRLF @ ''0'' @ CRLF @ CRLF)\<rparr>"

text \<open>A good chunk, then a size line whose size is not hexadecimal and that has an extension.\<close>

definition malformed_response :: response where
  "malformed_response =
     example_response\<lparr>fp := Some (''3'' @ CRLF @ ''abc'' @ CRLF @ ''zz;x'' @ CRLF)\<rparr>"

text \<open>
  A response that is not chunked and has no Content-Length, on a connection that fails
  after twelve bytes.
\<close>

definition broken_response :: response where
  "broken_response =
     \<lparr>version = 11, status = 200, reason = ''OK'', msg_headers = [],
      chunked = False, length_left = None, method_head = False,
      fp = Some ''partial body'', broken = True\<rparr>"

text \<open>The same broken delivery, announced as chunked.\<close>

definition broken_chunked_response :: response where
  "broken_chunked_response = broken_response\<lparr>chunked := True\<rparr>"

definition example_env :: env where
  "example_env =
     \<lparr>real_dns_lookup = (\<lambda>h. if h = ''example.com'' then Some ''10.0.0.1'' else None),
      getresponse = (\<lambda>ip rq hs. Inr example_response),
      inject_deterministic_script = (\<lambda>a. (Some ''no head'', a)),
      find_closest_request = (\<lambda>a rq use_path. None),
      diff = (\<lambda>a rq. None)\<rparr>"

definition extension_env :: env where
  "extension_env = example_env\<lparr>getresponse := (\<lambda>ip rq hs. Inr extension_response)\<rparr>"

definition example_archived :: archived_response where
  "example_archived =
     ArchivedHttpResponse 11 200 ''OK'' [(''transfer-encoding'', ''chunked'')] [''hello'']"

definition empty_world :: world where
  "empty_world =
     \<lparr>http_archive = Map.empty, cache_miss_calls = [], real_fetches = [], logged = []\<rparr>"

definition recorded_world :: world where
  "recorded_world = empty_world\<lparr>http_archive := [example_request \<mapsto> example_archived]\<rparr>"

definition example_fetcher :: ControllableHttpArchiveFetch where
  "example_fetcher = ControllableHttpArchiveFetch_init False False True False False"

section \<open>Properties\<close>

subsection \<open>Reading lines and sizes\<close>

lemma hexdigit_plain:
  "hexdigit c \<Longrightarrow>
   c \<noteq> LF \<and> c \<noteq> CR \<and> c \<noteq> CHR '';'' \<and> \<not> isspace c \<and> c \<noteq> CHR ''-'' \<and> c \<noteq> CHR ''+'' \<and>
   c \<noteq> CHR ''x'' \<and> c \<noteq> CHR ''X''"
  by (auto simp: hexdigit_def digit_value_def isspace_def)

lemma hexdigits_no:
  assumes "list_all hexdigit ds"
  shows "LF \<notin> set ds" and "CHR '';'' \<notin> set ds"
  using assms hexdigit_plain by (auto simp: list_all_iff)

lemma readline_line:
  assumes "fp r = Some (l @ LF # rest)" and "LF \<notin> set l"
  shows "readline r = (Inr (l @ [LF]), r\<lparr>fp := Some rest\<rparr>)"
proof -
  from assms(2) have "takeWhile (\<lambda>c. c \<noteq> LF) (l @ LF # rest) = l"
    by (induction l) auto
  with assms(1) show ?thesis by (simp add: readline_def Let_def)
qed

lemma readline_eof:
  assumes "fp r = Some l" and "LF \<notin> set l" and "\<not> broken r"
  shows "readline r = (Inr l, r\<lparr>fp := Some []\<rparr>)"
  using assms by (simp add: readline_def)

lemma strip_spaces_hex:
  assumes "ds \<noteq> []" and "list_all hexdigit ds"
  shows "rev (dropWhile isspace (rev (dropWhile isspace (ds @ CRLF)))) = ds"
proof -
  from assms obtain d ds' where d: "ds = d # ds'" "hexdigit d" by (cases ds) auto
  then have a: "dropWhile isspace (ds @ CRLF) = ds @ CRLF"
    using hexdigit_plain by simp
  from assms(1) obtain ys y where y: "ds = ys @ [y]" by (cases ds rule: rev_cases) auto
  with assms(2) have "\<not> isspace y" using hexdigit_plain by simp
  with y have "dropWhile isspace (rev ds) = rev ds" by simp
  then have "dropWhile isspace (rev (ds @ CRLF)) = rev ds"
    by (simp add: CRLF_def isspace_def)
  with a show ?thesis by simp
qed

lemma strip_sign_hex:
  assumes "ds \<noteq> []" and "list_all hexdigit ds"
  shows "strip_sign ds = (False, ds)"
  using assms hexdigit_plain by (cases ds) (auto simp: strip_sign_def)

lemma strip_0x_hex:
  assumes "list_all hexdigit ds"
  shows "strip_0x ds = ds"
proof -
  have "\<not> hexdigit (CHR ''x'')" and "\<not> hexdigit (CHR ''X'')"
    by (simp_all add: hexdigit_def digit_value_def)
  with assms show ?thesis by (auto simp: strip_0x_def split: list.splits)
qed

lemma int16_hex:
  assumes "ds \<noteq> []" and "list_all hexdigit ds"
  shows "int16 (ds @ CRLF) = Some (int (hex_value ds))"
  using assms by (simp add: int16_def strip_spaces_hex strip_sign_hex strip_0x_hex)

lemma read_chunk_size_hex:
  assumes "size_line_of ds n"
  shows "read_chunk_size (ds @ CRLF) = Inr (Some (int n))"
proof -
  from assms have "CHR '';'' \<notin> set (ds @ CRLF)"
    using hexdigits_no(2) by (auto simp: size_line_of_def CRLF_def)
  then have "find_char (CHR '';'') (ds @ CRLF) = - 1" by (simp add: find_char_def)
  with assms show ?thesis by (simp add: read_chunk_size_def int16_hex size_line_of_def)
qed

lemma readline_size_line:
  assumes "fp r = Some (ds @ CRLF @ rest)" and "list_all hexdigit ds"
  shows "readline r = (Inr (ds @ CRLF), r\<lparr>fp := Some rest\<rparr>)"
proof -
  have "LF \<notin> set (ds @ [CR])" using assms(2) hexdigits_no(1) by auto
  moreover have "fp r = Some ((ds @ [CR]) @ LF # rest)" using assms(1) by (simp add: CRLF_def)
  ultimately have "readline r = (Inr ((ds @ [CR]) @ [LF]), r\<lparr>fp := Some rest\<rparr>)"
    by (rule readline_line[rotated])
  then show ?thesis by (simp add: CRLF_def)
qed

lemma safe_read_exact:
  assumes "fp r = Some (c @ rest)" and "c \<noteq> []"
  shows "safe_read (int (length c)) r = (Inr c, r\<lparr>fp := Some rest\<rparr>)"
  using assms by (simp add: safe_read_def)

lemma safe_read_crlf:
  assumes "fp r = Some (CRLF @ rest)"
  shows "safe_read 2 r = (Inr CRLF, r\<lparr>fp := Some rest\<rparr>)"
  using assms by (simp add: safe_read_def CRLF_def)

lemma read_chunk_loop_step:
  assumes "fp r = Some (frame (ds, c) @ rest)" and "size_line_of ds (length c)" and "c \<noteq> []"
  shows "read_chunk_loop acc r = read_chunk_loop (acc @ [c]) (r\<lparr>fp := Some rest\<rparr>)"
proof -
  from assms(1) have f: "fp r = Some (ds @ CRLF @ (c @ CRLF @ rest))" by (simp add: frame_def)
  from assms(2) have h: "list_all hexdigit ds" by (simp add: size_line_of_def)
  note rl = readline_size_line[OF f h]
  note sz = read_chunk_size_hex[OF assms(2)]
  have s1: "safe_read (int (length c)) (r\<lparr>fp := Some (c @ CRLF @ rest)\<rparr>)
              = (Inr c, r\<lparr>fp := Some (CRLF @ rest)\<rparr>)"
    using safe_read_exact[of "r\<lparr>fp := Some (c @ CRLF @ rest)\<rparr>" c "CRLF @ rest"] assms(3) by simp
  have s2: "safe_read 2 (r\<lparr>fp := Some (CRLF @ rest)\<rparr>) = (Inr CRLF, r\<lparr>fp := Some rest\<rparr>)"
    using safe_read_crlf[of "r\<lparr>fp := Some (CRLF @ rest)\<rparr>" rest] by simp
  show ?thesis
    by (subst read_chunk_loop.simps) (simp add: rl sz s1 s2 assms(3))
qed

lemma read_chunk_loop_chunks:
  assumes "fp r = Some (concat (map frame xs) @ rest)"
    and "\<forall>x \<in> set xs. size_line_of (fst x) (length (snd x)) \<and> snd x \<noteq> []"
  shows "read_chunk_loop acc r = read_chunk_loop (acc @ map snd xs) (r\<lparr>fp := Some rest\<rparr>)"
  using assms
proof (induction xs arbitrary: acc r)
  case Nil
  then have "r\<lparr>fp := Some rest\<rparr> = r" by simp
  then show ?case by simp
next
  case (Cons x xs)
  from Cons.prems(1) have f: "fp r = Some (frame (fst x, snd x) @ (concat (map frame xs) @ rest))" by simp
  from Cons.prems(2) have sx: "size_line_of (fst x) (length (snd x))" "snd x \<noteq> []" by auto
  have "read_chunk_loop acc r
          = read_chunk_loop (acc @ [snd x]) (r\<lparr>fp := Some (concat (map frame xs) @ rest)\<rparr>)"
    by (rule read_chunk_loop_step[OF f sx])
  also have "\<dots> = read_chunk_loop ((acc @ [snd x]) @ map snd xs)
                     (r\<lparr>fp := Some (concat (map frame xs) @ rest)\<rparr>\<lparr>fp := Some rest\<rparr>)"
    using Cons.prems(2) by (intro Cons.IH) auto
  finally show ?case by simp
qed

lemma read_chunk_loop_last:
  assumes "fp r = Some (z @ CRLF @ rest)" and "size_line_of z 0"
  shows "read_chunk_loop acc r = (Inr acc, r\<lparr>fp := Some rest\<rparr>)"
proof -
  from assms(2) have h: "list_all hexdigit z" by (simp add: size_line_of_def)
  note rl = readline_size_line[OF assms(1) h]
  note sz = read_chunk_size_hex[OF assms(2)]
  show ?thesis by (subst read_chunk_loop.simps) (simp add: rl sz)
qed

lemma skip_trailers_lines:
  assumes "fp r = Some (concat (map (\<lambda>t. t @ CRLF) ts) @ rest)"
    and "\<forall>t \<in> set ts. t \<noteq> [] \<and> LF \<notin> set t"
  shows "skip_trailers r = skip_trailers (r\<lparr>fp := Some rest\<rparr>)"
  using assms
proof (induction ts arbitrary: r)
  case Nil
  then have "r\<lparr>fp := Some rest\<rparr> = r" by simp
  then show ?case by simp
next
  case (Cons t ts)
  let ?more = "concat (map (\<lambda>t. t @ CRLF) ts) @ rest"
  from Cons.prems have t: "t \<noteq> []" "LF \<notin> set (t @ [CR])" by auto
  from Cons.prems(1) have "fp r = Some ((t @ [CR]) @ LF # ?more)" by (simp add: CRLF_def)
  from readline_line[OF this t(2)]
  have rl: "readline r = (Inr (t @ CRLF), r\<lparr>fp := Some ?more\<rparr>)" by (simp add: CRLF_def)
  have "skip_trailers r = skip_trailers (r\<lparr>fp := Some ?more\<rparr>)"
    by (subst skip_trailers.simps) (simp add: rl t(1))
  also have "\<dots> = skip_trailers (r\<lparr>fp := Some ?more\<rparr>\<lparr>fp := Some rest\<rparr>)"
    using Cons.prems(2) by (intro Cons.IH) auto
  finally show ?case by simp
qed

lemma skip_trailers_blank:
  assumes "fp r = Some (CRLF @ rest)"
  shows "skip_trailers r = (Inr (), r\<lparr>fp := Some rest\<rparr>)"
proof -
  from assms have "fp r = Some ([CR] @ LF # rest)" by (simp add: CRLF_def)
  from readline_line[OF this] have "readline r = (Inr CRLF, r\<lparr>fp := Some rest\<rparr>)"
    by (simp add: CRLF_def)
  then show ?thesis by (subst skip_trailers.simps) simp
qed

lemma skip_trailers_eof:
  assumes "fp r = Some []" and "\<not> broken r"
  shows "skip_trailers r = (Inr (), r)"
proof -
  from assms have "readline r = (Inr [], r\<lparr>fp := Some []\<rparr>)" by (simp add: readline_def)
  moreover from assms(1) have "r\<lparr>fp := Some []\<rparr> = r" by simp
  ultimately show ?thesis by (subst skip_trailers.simps) simp
qed

subsection \<open>read_chunks on a chunked body\<close>

lemma close_update: "close (r\<lparr>fp := x\<rparr>) = close r"
  by (simp add: close_def)

lemma skip_trailers_end:
  assumes "fp r = Some fin" and "body_end r fin"
  shows "\<exists>r1. skip_trailers r = (Inr (), r1) \<and> close r1 = close r"
proof (cases "fin = []")
  case True
  with assms have "fp r = Some []" and "\<not> broken r" by (auto simp: body_end_def CRLF_def)
  then have "skip_trailers r = (Inr (), r)" by (rule skip_trailers_eof)
  then show ?thesis by simp
next
  case False
  with assms(2) have "take 2 fin = CRLF" by (simp add: body_end_def)
  then have "fin = CRLF @ drop 2 fin" by (metis append_take_drop_id)
  with assms(1) have "fp r = Some (CRLF @ drop 2 fin)" by simp
  from skip_trailers_blank[OF this] show ?thesis by (simp add: close_def)
qed

text \<open>
  Bodies without chunk extensions. Let the response be chunked and let its body be the
  chunks \<open>c1 .. cn\<close>, each non-empty and each framed by a size line that is nothing but
  hexadecimal digits denoting its length and by a CRLF after its bytes, then the size line
  of the zero chunk, then any number of trailer lines, then a blank line or the end of
  file. Then \<^verbatim>\<open>read_chunks\<close> returns exactly the list \<open>[c1, .., cn]\<close>: the size lines and the
  CRLFs are gone and the bytes of each chunk are as they were sent, whatever the trailer
  lines are. The handle is closed afterwards.
\<close>

theorem read_chunks_framed:
  assumes "chunked r"
    and "fp r = Some (chunked_body xs z ts fin)"
    and "well_framed xs"
    and "size_line_of z 0"
    and "trailer_lines ts"
    and "body_end r fin"
  shows "read_chunks r = (Inr (map snd xs), close r)"
proof -
  let ?trail = "concat (map (\<lambda>t. t @ CRLF) ts) @ fin"
  let ?r1 = "r\<lparr>fp := Some (z @ CRLF @ ?trail)\<rparr>"
  let ?r2 = "r\<lparr>fp := Some ?trail\<rparr>"
  let ?r3 = "r\<lparr>fp := Some fin\<rparr>"
  from assms(2) have f: "fp r = Some (concat (map frame xs) @ (z @ CRLF @ ?trail))"
    by (simp add: chunked_body_def)
  from assms(3) have wf: "\<forall>x \<in> set xs. size_line_of (fst x) (length (snd x)) \<and> snd x \<noteq> []"
    by (simp add: well_framed_def)
  have "read_chunk_loop [] r = read_chunk_loop ([] @ map snd xs) ?r1"
    by (rule read_chunk_loop_chunks[OF f wf])
  also have "\<dots> = (Inr (map snd xs), ?r2)"
    using read_chunk_loop_last[of ?r1 z ?trail "map snd xs"] assms(4) by simp
  finally have loop: "read_chunk_loop [] r = (Inr (map snd xs), ?r2)" .
  from assms(5) have tl: "\<forall>t \<in> set ts. t \<noteq> [] \<and> LF \<notin> set t" by (simp add: trailer_lines_def)
  have "skip_trailers ?r2 = skip_trailers (?r2\<lparr>fp := Some fin\<rparr>)"
    by (rule skip_trailers_lines[OF _ tl]) simp
  then have sk: "skip_trailers ?r2 = skip_trailers ?r3" by simp
  from assms(6) have "body_end ?r3 fin" by (simp add: body_end_def)
  with skip_trailers_end[of ?r3 fin] obtain r4
    where r4: "skip_trailers ?r3 = (Inr (), r4)" "close r4 = close ?r3" by auto
  from r4(2) have "close r4 = close r" by (simp add: close_update)
  with assms(1) loop sk r4(1) show ?thesis by (simp add: read_chunks_def)
qed

theorem read_chunks_framed_witness:
  "chunked framed_response
   \<and> fp framed_response = Some (chunked_body example_chunks ''0'' [''Expires: never''] CRLF)
   \<and> well_framed example_chunks
   \<and> size_line_of ''0'' 0
   \<and> trailer_lines [''Expires: never'']
   \<and> body_end framed_response CRLF
   \<and> read_chunks framed_response = (Inr [''hello'', ''wide world ''], close framed_response)"
proof -
  have h1: "chunked framed_response" by (simp add: framed_response_def example_response_def)
  have h2: "fp framed_response = Some (chunked_body example_chunks ''0'' [''Expires: never''] CRLF)"
    by (simp add: framed_response_def)
  have h3: "well_framed example_chunks"
    by (simp add: well_framed_def example_chunks_def size_line_of_def hexdigit_def
                  digit_value_def hex_value_def)
  have h4: "size_line_of ''0'' 0"
    by (simp add: size_line_of_def hexdigit_def digit_value_def hex_value_def)
  have h5: "trailer_lines [''Expires: never'']" by (simp add: trailer_lines_def)
  have h6: "body_end framed_response CRLF" by (simp add: body_end_def CRLF_def)
  have "map snd example_chunks = [''hello'', ''wide world '']" by (simp add: example_chunks_def)
  with read_chunks_framed[OF h1 h2 h3 h4 h5 h6] h1 h2 h3 h4 h5 h6 show ?thesis by simp
qed

text \<open>
  C2. The claim is that every chunked body of chunks \<open>c1 .. cn\<close>, each framed by a valid
  size line and a CRLF and ended by the zero chunk, is read as exactly \<open>[c1, .., cn]\<close>. A
  size line is valid with a chunk extension after the hexadecimal size, and the code means
  to strip it. On the body of the chunks \<^verbatim>\<open>hello\<close> and \<^verbatim>\<open>world!\<close>, the second with the size
  line \<^verbatim>\<open>6;q=1\<close>, \<^verbatim>\<open>read_chunks\<close> does not return the two chunks: \<^verbatim>\<open>_read_chunk_size\<close>
  raises \<^verbatim>\<open>NameError\<close> on the second size line, through the unbound name
  \<^verbatim>\<open>extention_pos\<close>. Without the extension the same body is read as the claim says.
\<close>

theorem read_chunks_extended_body:
  "chunked extended_response
   \<and> fp extended_response = Some (chunked_body extended_chunks ''0'' [''Expires: never''] CRLF)
   \<and> map snd extended_chunks = [''hello'', ''world!'']
   \<and> read_chunks extended_response = (Inl (NameError ''extention_pos''), close extended_response)
   \<and> read_chunks (extended_response
         \<lparr>fp := Some (chunked_body [(''5'', ''hello''), (''6'', ''world!'')] ''0''
                        [''Expires: never''] CRLF)\<rparr>)
       = (Inr [''hello'', ''world!''], close extended_response)"
proof (intro conjI)
  show "chunked extended_response" by (simp add: extended_response_def example_response_def)
  show "fp extended_response = Some (chunked_body extended_chunks ''0'' [''Expires: never''] CRLF)"
    by (simp add: extended_response_def)
  show "map snd extended_chunks = [''hello'', ''world!'']" by (simp add: extended_chunks_def)
  show "read_chunks extended_response = (Inl (NameError ''extention_pos''), close extended_response)"
    by code_simp
  show "read_chunks (extended_response
          \<lparr>fp := Some (chunked_body [(''5'', ''hello''), (''6'', ''world!'')] ''0''
                         [''Expires: never''] CRLF)\<rparr>)
        = (Inr [''hello'', ''world!''], close extended_response)"
    by code_simp
qed

text \<open>
  When the chunks are followed by a line on which \<^verbatim>\<open>_read_chunk_size\<close> returns \<^verbatim>\<open>None\<close>
  (\<^verbatim>\<open>int(line, 16)\<close> raised \<^verbatim>\<open>ValueError\<close>), \<^verbatim>\<open>read_chunks\<close> raises \<^verbatim>\<open>IncompleteRead\<close> with the
  bytes of all the chunks read so far, and closes the handle. A line with a semicolon is
  not such a line: \<^verbatim>\<open>_read_chunk_size\<close> raises on it before \<^verbatim>\<open>int\<close> is called.
\<close>

lemma readline_close: "readline r = (x, r1) \<Longrightarrow> close r1 = close r"
  by (auto simp: readline_def close_def Let_def split: option.splits if_splits)

lemma read_chunks_unparsable_size_line:
  assumes "chunked r"
    and "fp r = Some (concat (map frame xs) @ rest)"
    and "well_framed xs"
    and "readline (r\<lparr>fp := Some rest\<rparr>) = (Inr line, r1)"
    and "read_chunk_size line = Inr None"
  shows "read_chunks r = (Inl (IncompleteRead (concat (map snd xs)) None), close r)"
proof -
  from assms(3) have wf: "\<forall>x \<in> set xs. size_line_of (fst x) (length (snd x)) \<and> snd x \<noteq> []"
    by (simp add: well_framed_def)
  have "read_chunk_loop [] r = read_chunk_loop ([] @ map snd xs) (r\<lparr>fp := Some rest\<rparr>)"
    by (rule read_chunk_loop_chunks[OF assms(2) wf])
  also have "\<dots> = (Inl (IncompleteRead (concat (map snd xs)) None), r1)"
    by (subst read_chunk_loop.simps) (simp add: assms(4,5))
  finally have loop: "read_chunk_loop [] r = (Inl (IncompleteRead (concat (map snd xs)) None), r1)" .
  from readline_close[OF assms(4)] have "close r1 = close r" by (simp add: close_update)
  with assms(1) loop show ?thesis by (simp add: read_chunks_def)
qed

text \<open>
  Whatever \<^verbatim>\<open>read_chunks\<close> raises, \<^verbatim>\<open>RealHttpFetch\<close> catches it: the fetch gives \<^verbatim>\<open>None\<close>.
\<close>

lemma RealHttpFetch_call_catches:
  assumes "real_dns_lookup e (host request) = Some host_ip" and "host_ip \<noteq> []"
    and "getresponse e host_ip request hdrs = Inr response"
    and "fst (read_chunks response) = Inl x"
  shows "fst (RealHttpFetch_call e request hdrs w) = None"
  using assms by (auto simp: RealHttpFetch_call_def Let_def split: prod.splits sum.splits)

text \<open>Every line with a semicolon in it ends \<^verbatim>\<open>_read_chunk_size\<close> with the \<^verbatim>\<open>NameError\<close>.\<close>

lemma read_chunk_size_semicolon:
  assumes "CHR '';'' \<in> set line"
  shows "read_chunk_size line = Inl (NameError ''extention_pos'')"
  using assms by (simp add: read_chunk_size_def find_char_def)

text \<open>
  C3. The claim is that a size line with a chunk extension, such as \<^verbatim>\<open>5;name=value\<close>, is
  cut at the semicolon and read as the size 5, and that the extension does not make the
  fetch fail. The code binds the position to \<^verbatim>\<open>chunk_extensions_pos\<close> and slices with the
  unbound name \<^verbatim>\<open>extention_pos\<close>: on this line \<^verbatim>\<open>_read_chunk_size\<close> raises \<^verbatim>\<open>NameError\<close>,
  \<^verbatim>\<open>read_chunks\<close> raises it in turn, and the live fetch of a response framed this way
  returns \<^verbatim>\<open>None\<close>.
\<close>

theorem read_chunk_size_extension:
  "read_chunk_size (''5;name=value'' @ CRLF) = Inl (NameError ''extention_pos'')
   \<and> fst (read_chunks extension_response) = Inl (NameError ''extention_pos'')
   \<and> fst (RealHttpFetch_call extension_env example_request [] empty_world) = None"
proof (intro conjI)
  show "read_chunk_size (''5;name=value'' @ CRLF) = Inl (NameError ''extention_pos'')"
    by code_simp
  show "fst (read_chunks extension_response) = Inl (NameError ''extention_pos'')"
    by code_simp
  show "fst (RealHttpFetch_call extension_env example_request [] empty_world) = None"
    by code_simp
qed

text \<open>
  C4. The claim is that a size line that is not hexadecimal makes \<^verbatim>\<open>read_chunks\<close> raise
  \<^verbatim>\<open>IncompleteRead\<close> with the chunks read so far. On the body \<^verbatim>\<open>3 CRLF abc CRLF zz;x CRLF\<close>
  the second size line is not hexadecimal, with or without its extension, and the code
  raises \<^verbatim>\<open>NameError\<close>, which carries nothing of the chunk \<^verbatim>\<open>abc\<close>: the unbound name of
  \<^verbatim>\<open>_read_chunk_size\<close> is reached before the line is parsed.
\<close>

theorem read_chunks_malformed_extension:
  "int16 ''zz'' = None \<and> int16 (''zz;x'' @ CRLF) = None
   \<and> read_chunks malformed_response = (Inl (NameError ''extention_pos''), close malformed_response)"
  by code_simp

subsection \<open>read_chunks and the open handle\<close>

lemma safe_read_outcomes:
  assumes "fp r = Some buf"
  shows "(\<exists>s. fst (safe_read amt r) = Inr s) \<or> fst (safe_read amt r) = Inl SocketError
         \<or> (\<exists>p e. fst (safe_read amt r) = Inl (IncompleteRead p e))"
  using assms by (simp add: safe_read_def)

lemma httplib_read_closes:
  assumes "fst (httplib_read r) \<noteq> Inl SocketError"
  shows "fp (snd (httplib_read r)) = None"
proof (cases "fp r")
  case None
  then show ?thesis by (simp add: httplib_read_def)
next
  case (Some buf)
  show ?thesis
  proof (cases "method_head r")
    case True
    with Some show ?thesis by (simp add: httplib_read_def close_def)
  next
    case False
    note nh = this
    show ?thesis
    proof (cases "length_left r")
      case None
      with Some nh assms show ?thesis
        by (simp add: httplib_read_def close_def split: if_splits)
    next
      case (Some n)
      obtain x r1 where sr: "safe_read (int n) r = (x, r1)" by fastforce
      from safe_read_outcomes[OF \<open>fp r = Some buf\<close>, of "int n"] sr
      consider (ok) s where "x = Inr s" | (sock) "x = Inl SocketError"
        | (inc) p e where "x = Inl (IncompleteRead p e)" by auto
      then show ?thesis
      proof cases
        case ok
        with \<open>fp r = Some buf\<close> nh Some sr show ?thesis
          by (simp add: httplib_read_def close_def)
      next
        case sock
        with \<open>fp r = Some buf\<close> nh Some sr assms show ?thesis
          by (simp add: httplib_read_def)
      next
        case inc
        with \<open>fp r = Some buf\<close> nh Some sr show ?thesis
          by (simp add: httplib_read_def close_def)
      qed
    qed
  qed
qed

text \<open>
  Where the handle is closed. \<^verbatim>\<open>read_chunks\<close> leaves the handle closed on every exit, by
  return or by exception, except one: the response is not chunked and \<^verbatim>\<open>read()\<close> fails
  with a transport error. The \<^verbatim>\<open>try ... finally\<close> covers the chunked branch only; a
  response that is not chunked is closed by the library's \<^verbatim>\<open>read()\<close> when it returns and
  when the body is shorter than its Content-Length.
\<close>

theorem read_chunks_closes:
  assumes "chunked r \<or> fst (read_chunks r) \<noteq> Inl SocketError"
  shows "fp (snd (read_chunks r)) = None"
proof (cases "chunked r")
  case True
  then show ?thesis
    by (simp add: read_chunks_def close_def split: prod.splits sum.splits)
next
  case False
  obtain x r1 where hr: "httplib_read r = (x, r1)" by fastforce
  with False have rc: "read_chunks r = (case x of Inl e \<Rightarrow> (Inl e, r1) | Inr body \<Rightarrow> (Inr [body], r1))"
    by (simp add: read_chunks_def)
  with assms False have "x \<noteq> Inl SocketError" by (auto split: sum.splits)
  with hr httplib_read_closes[of r] have "fp r1 = None" by simp
  with rc show ?thesis by (simp split: sum.splits)
qed

theorem read_chunks_closes_witness:
  "(chunked framed_response \<or> fst (read_chunks framed_response) \<noteq> Inl SocketError)
   \<and> fp (snd (read_chunks framed_response)) = None"
proof -
  have h: "chunked framed_response \<or> fst (read_chunks framed_response) \<noteq> Inl SocketError"
    by (simp add: framed_response_def example_response_def)
  from read_chunks_closes[OF h] h show ?thesis by simp
qed

text \<open>
  On a chunked response the \<^verbatim>\<open>finally\<close> closes the handle when the connection breaks.
\<close>

lemma read_chunks_chunked_closes_on_error:
  "chunked broken_chunked_response
   \<and> fst (read_chunks broken_chunked_response) = Inl SocketError
   \<and> fp (snd (read_chunks broken_chunked_response)) = None"
proof (intro conjI)
  show "chunked broken_chunked_response"
    by (simp add: broken_chunked_response_def broken_response_def)
  show "fst (read_chunks broken_chunked_response) = Inl SocketError" by code_simp
  show "fp (snd (read_chunks broken_chunked_response)) = None" by code_simp
qed

text \<open>
  C5. The claim is that the stream is closed on every exit of every call of
  \<^verbatim>\<open>read_chunks\<close>, chunked or not. On a response that is not chunked, when the connection
  breaks during \<^verbatim>\<open>read()\<close>, the exception leaves \<^verbatim>\<open>read_chunks\<close> and the handle is still
  open: the branch that calls \<^verbatim>\<open>self.read()\<close> is outside the \<^verbatim>\<open>try ... finally\<close> that closes
  the handle of a chunked response on the same failure.
\<close>

theorem read_chunks_leaves_open:
  "\<not> chunked broken_response
   \<and> fst (read_chunks broken_response) = Inl SocketError
   \<and> fp (snd (read_chunks broken_response)) \<noteq> None"
  by (simp add: read_chunks_def httplib_read_def broken_response_def)

subsection \<open>Record mode\<close>

lemma RealHttpFetch_call_result:
  "fst (RealHttpFetch_call e request hdrs w) = fst (RealHttpFetch_call e request hdrs w')"
  by (simp add: RealHttpFetch_call_def Let_def split: option.splits sum.splits prod.splits)

lemma RealHttpFetch_call_archive:
  "http_archive (snd (RealHttpFetch_call e request hdrs w)) = http_archive w"
  by (simp add: RealHttpFetch_call_def Let_def log_def split: option.splits sum.splits prod.splits)

lemma RealHttpFetch_call_counts:
  "real_fetches (snd (RealHttpFetch_call e request hdrs w)) = real_fetches w @ [(request, hdrs)]"
  by (simp add: RealHttpFetch_call_def Let_def log_def split: option.splits sum.splits prod.splits)

lemma record_request_archive: "http_archive (record_request rq m c w) = http_archive w"
  by (simp add: record_request_def)

text \<open>
  C1. If the request is already in the archive, \<^verbatim>\<open>RecordHttpArchiveFetch.__call__\<close> returns
  the archived entry, \<^verbatim>\<open>RealHttpFetch\<close> is not called, and the archive is as it was.
\<close>

theorem record_fetch_dedup:
  assumes "http_archive w request = Some archived"
  shows "fst (RecordHttpArchiveFetch_call e self request hdrs w) = Some archived
       \<and> real_fetches (snd (RecordHttpArchiveFetch_call e self request hdrs w)) = real_fetches w
       \<and> http_archive (snd (RecordHttpArchiveFetch_call e self request hdrs w)) = http_archive w"
  using assms by (simp add: RecordHttpArchiveFetch_call_def Let_def record_request_def log_def)

theorem record_fetch_dedup_witness:
  "http_archive recorded_world example_request = Some example_archived
   \<and> fst (RecordHttpArchiveFetch_call example_env (RecordHttpArchiveFetch_init True True)
            example_request [] recorded_world) = Some example_archived
   \<and> real_fetches (snd (RecordHttpArchiveFetch_call example_env (RecordHttpArchiveFetch_init True True)
            example_request [] recorded_world)) = []
   \<and> http_archive (snd (RecordHttpArchiveFetch_call example_env (RecordHttpArchiveFetch_init True True)
            example_request [] recorded_world)) = http_archive recorded_world"
proof -
  have h: "http_archive recorded_world example_request = Some example_archived"
    by (simp add: recorded_world_def)
  have "real_fetches recorded_world = []" by (simp add: recorded_world_def empty_world_def)
  with h record_fetch_dedup[OF h, of example_env "RecordHttpArchiveFetch_init True True" "[]"]
  show ?thesis by simp
qed

text \<open>
  C6. If the request is not in the archive and the live fetch returns \<^verbatim>\<open>None\<close>, then
  \<^verbatim>\<open>RecordHttpArchiveFetch.__call__\<close> returns \<^verbatim>\<open>None\<close> and the archive is as it was.
\<close>

theorem record_fetch_live_failure:
  assumes "http_archive w request = None"
    and "fst (RealHttpFetch_call e request hdrs w) = None"
  shows "fst (RecordHttpArchiveFetch_call e self request hdrs w) = None
       \<and> http_archive (snd (RecordHttpArchiveFetch_call e self request hdrs w)) = http_archive w"
proof -
  let ?w1 = "if record_cache_misses self then record_request request True False w else w"
  have a: "http_archive ?w1 = http_archive w" by (simp add: record_request_archive)
  from assms(2) have f: "fst (RealHttpFetch_call e request hdrs ?w1) = None"
    using RealHttpFetch_call_result by metis
  obtain res w2 where r: "RealHttpFetch_call e request hdrs ?w1 = (res, w2)" by fastforce
  with f have n: "res = None" by simp
  from r have "http_archive w2 = http_archive ?w1"
    using RealHttpFetch_call_archive[of e request hdrs ?w1] by simp
  with a have "http_archive w2 = http_archive w" by simp
  with assms(1) a r n show ?thesis
    by (simp add: RecordHttpArchiveFetch_call_def Let_def)
qed

theorem record_fetch_live_failure_witness:
  "http_archive empty_world unknown_request = None
   \<and> fst (RealHttpFetch_call example_env unknown_request [] empty_world) = None
   \<and> fst (RecordHttpArchiveFetch_call example_env (RecordHttpArchiveFetch_init False False)
            unknown_request [] empty_world) = None
   \<and> http_archive (snd (RecordHttpArchiveFetch_call example_env (RecordHttpArchiveFetch_init False False)
            unknown_request [] empty_world)) = http_archive empty_world"
proof -
  have h1: "http_archive empty_world unknown_request = None" by (simp add: empty_world_def)
  have h2: "fst (RealHttpFetch_call example_env unknown_request [] empty_world) = None"
    by (simp add: RealHttpFetch_call_def example_env_def unknown_request_def example_request_def Let_def)
  from h1 h2 record_fetch_live_failure[OF h1 h2, of "RecordHttpArchiveFetch_init False False"]
  show ?thesis by simp
qed

text \<open>
  C7. With deterministic-script injection switched on, let the request be new, let the
  live fetch succeed, and let \<^verbatim>\<open>inject_deterministic_script\<close> raise
  \<^verbatim>\<open>InjectionFailedException\<close>. Then the failure is logged, and the response is stored in
  the archive under the request and returned all the same.
\<close>

theorem injection_failure_still_stored:
  assumes "use_deterministic_script self"
    and "http_archive w request = None"
    and "fst (RealHttpFetch_call e request hdrs w) = Some (response, chunks)"
    and "inject_deterministic_script e
           (ArchivedHttpResponse (version response) (status response) (reason response)
              (msg_headers response) chunks) = (Some err, injected)"
  shows "fst (RecordHttpArchiveFetch_call e self request hdrs w) = Some injected
       \<and> http_archive (snd (RecordHttpArchiveFetch_call e self request hdrs w)) request = Some injected
       \<and> (ERROR, FailedToInject request) \<in> set (logged (snd (RecordHttpArchiveFetch_call e self request hdrs w)))
       \<and> (DEBUG, RequestContent err) \<in> set (logged (snd (RecordHttpArchiveFetch_call e self request hdrs w)))"
proof -
  let ?w1 = "if record_cache_misses self then record_request request True False w else w"
  have a: "http_archive ?w1 = http_archive w" by (simp add: record_request_archive)
  from assms(3) have f: "fst (RealHttpFetch_call e request hdrs ?w1) = Some (response, chunks)"
    using RealHttpFetch_call_result by metis
  obtain res w2 where r: "RealHttpFetch_call e request hdrs ?w1 = (res, w2)" by fastforce
  with f have n: "res = Some (response, chunks)" by simp
  from assms(1,2,4) a r n show ?thesis
    by (simp add: RecordHttpArchiveFetch_call_def Let_def log_def)
qed

theorem injection_failure_still_stored_witness:
  "use_deterministic_script (RecordHttpArchiveFetch_init True False)
   \<and> http_archive empty_world example_request = None
   \<and> fst (RealHttpFetch_call example_env example_request [] empty_world)
       = Some (close example_response, [''hello''])
   \<and> inject_deterministic_script example_env example_archived = (Some ''no head'', example_archived)
   \<and> fst (RecordHttpArchiveFetch_call example_env (RecordHttpArchiveFetch_init True False)
            example_request [] empty_world) = Some example_archived
   \<and> http_archive (snd (RecordHttpArchiveFetch_call example_env (RecordHttpArchiveFetch_init True False)
            example_request [] empty_world)) example_request = Some example_archived
   \<and> (ERROR, FailedToInject example_request)
        \<in> set (logged (snd (RecordHttpArchiveFetch_call example_env
                    (RecordHttpArchiveFetch_init True False) example_request [] empty_world)))"
proof -
  have h1: "use_deterministic_script (RecordHttpArchiveFetch_init True False)"
    by (simp add: RecordHttpArchiveFetch_init_def)
  have h2: "http_archive empty_world example_request = None" by (simp add: empty_world_def)
  have h3: "fst (RealHttpFetch_call example_env example_request [] empty_world)
              = Some (close example_response, [''hello''])"
    by code_simp
  have a: "ArchivedHttpResponse (version (close example_response)) (status (close example_response))
             (reason (close example_response)) (msg_headers (close example_response)) [''hello'']
           = example_archived"
    by (simp add: example_archived_def example_response_def close_def)
  have h4: "inject_deterministic_script example_env
              (ArchivedHttpResponse (version (close example_response)) (status (close example_response))
                 (reason (close example_response)) (msg_headers (close example_response)) [''hello''])
            = (Some ''no head'', example_archived)"
    by (simp add: a example_env_def)
  from injection_failure_still_stored[OF h1 h2 h3 h4] h1 h2 h3 h4 a show ?thesis by simp
qed

subsection \<open>Replay mode\<close>

text \<open>
  C8. With a miss tracker, one replay fetch makes exactly one call of \<^verbatim>\<open>record_request\<close>:
  for the request, with \<^verbatim>\<open>is_record_mode\<close> false, and with \<^verbatim>\<open>is_cache_miss\<close> true exactly
  when the fetch found no response, neither the exact one nor the closest one.
\<close>

theorem replay_records_one_call:
  assumes "replay_cache_misses self"
  shows "cache_miss_calls (snd (ReplayHttpArchiveFetch_call e self request hdrs w))
       = cache_miss_calls w
         @ [(request, False, fst (ReplayHttpArchiveFetch_call e self request hdrs w) = None)]"
  using assms
  by (simp add: ReplayHttpArchiveFetch_call_def Let_def record_request_def log_def
           split: option.splits prod.splits)

theorem replay_records_one_call_witness:
  "replay_cache_misses (ReplayHttpArchiveFetch_init False True True)
   \<and> cache_miss_calls (snd (ReplayHttpArchiveFetch_call example_env
         (ReplayHttpArchiveFetch_init False True True) unknown_request [] recorded_world))
       = [(unknown_request, False, True)]
   \<and> cache_miss_calls (snd (ReplayHttpArchiveFetch_call example_env
         (ReplayHttpArchiveFetch_init False True True) example_request [] recorded_world))
       = [(example_request, False, False)]"
proof -
  have h: "replay_cache_misses (ReplayHttpArchiveFetch_init False True True)"
    by (simp add: ReplayHttpArchiveFetch_init_def)
  have e: "cache_miss_calls recorded_world = []" by (simp add: recorded_world_def empty_world_def)
  have m: "fst (ReplayHttpArchiveFetch_call example_env (ReplayHttpArchiveFetch_init False True True)
                  unknown_request [] recorded_world) = None"
    by (simp add: ReplayHttpArchiveFetch_call_def ReplayHttpArchiveFetch_init_def recorded_world_def
                  empty_world_def unknown_request_def example_request_def example_env_def Let_def)
  have k: "fst (ReplayHttpArchiveFetch_call example_env (ReplayHttpArchiveFetch_init False True True)
                  example_request [] recorded_world) = Some example_archived"
    by (simp add: ReplayHttpArchiveFetch_call_def ReplayHttpArchiveFetch_init_def recorded_world_def
                  empty_world_def Let_def)
  from replay_records_one_call[OF h, of example_env unknown_request "[]" recorded_world]
       replay_records_one_call[OF h, of example_env example_request "[]" recorded_world]
       h e m k
  show ?thesis by simp
qed

text \<open>
  C10. A replay fetch leaves the archive as it was, for every request and every archive,
  on a hit and on a miss. It reads the archive with \<^verbatim>\<open>get\<close>, \<^verbatim>\<open>find_closest_request\<close> and
  \<^verbatim>\<open>diff\<close> and never assigns to it.
\<close>

theorem replay_keeps_archive:
  "http_archive (snd (ReplayHttpArchiveFetch_call e self request hdrs w)) = http_archive w"
  by (simp add: ReplayHttpArchiveFetch_call_def Let_def record_request_def log_def
           split: option.splits prod.splits)

subsection \<open>Switching from record to replay\<close>

lemma record_fetch_stores:
  assumes "RecordHttpArchiveFetch_call e self request hdrs w = (Some recorded, w1)"
  shows "http_archive w1 request = Some recorded"
proof -
  let ?w0 = "if record_cache_misses self then record_request request True False w else w"
  show ?thesis
  proof (cases "http_archive ?w0 request")
    case (Some a)
    with assms show ?thesis
      by (auto simp: RecordHttpArchiveFetch_call_def Let_def log_def)
  next
    case None
    with assms show ?thesis
      by (auto simp: RecordHttpArchiveFetch_call_def Let_def log_def
               split: prod.splits option.splits if_splits)
  qed
qed

lemma replay_exact_hit:
  assumes "http_archive w request = Some a"
  shows "fst (ReplayHttpArchiveFetch_call e self request hdrs w) = Some a"
  using assms by (simp add: ReplayHttpArchiveFetch_call_def Let_def)

text \<open>
  C9. Let a \<^verbatim>\<open>ControllableHttpArchiveFetch\<close> be constructed in record mode and let its fetch
  of a request return a response. That call went to the record fetcher; after
  \<^verbatim>\<open>SetReplayMode()\<close> a fetch of the same request goes to the replay fetcher and returns the
  response that was recorded: the same version, status, reason, headers and chunks.
\<close>

theorem record_then_replay:
  assumes "self = ControllableHttpArchiveFetch_init use_script use_diff True misses closest"
    and "ControllableHttpArchiveFetch_call e self request hdrs w = (Some recorded, w1)"
  shows "ControllableHttpArchiveFetch_call e self request hdrs w
           = RecordHttpArchiveFetch_call e (record_fetch self) request hdrs w
       \<and> ControllableHttpArchiveFetch_call e (SetReplayMode self) request hdrs1 w1
           = ReplayHttpArchiveFetch_call e (replay_fetch self) request hdrs1 w1
       \<and> fst (ControllableHttpArchiveFetch_call e (SetReplayMode self) request hdrs1 w1) = Some recorded"
proof -
  from assms(1) have m: "fetch self = record_fetch_active"
    by (simp add: ControllableHttpArchiveFetch_init_def SetRecordMode_def)
  then have rec: "ControllableHttpArchiveFetch_call e self request hdrs w
           = RecordHttpArchiveFetch_call e (record_fetch self) request hdrs w"
    by (simp add: ControllableHttpArchiveFetch_call_def)
  have rep: "ControllableHttpArchiveFetch_call e (SetReplayMode self) request hdrs1 w1
           = ReplayHttpArchiveFetch_call e (replay_fetch self) request hdrs1 w1"
    by (simp add: ControllableHttpArchiveFetch_call_def SetReplayMode_def)
  from assms(2) rec have "http_archive w1 request = Some recorded"
    using record_fetch_stores by metis
  with rec rep show ?thesis by (simp add: replay_exact_hit)
qed

theorem record_then_replay_witness:
  "example_fetcher = ControllableHttpArchiveFetch_init False False True False False
   \<and> fst (ControllableHttpArchiveFetch_call example_env example_fetcher example_request [] empty_world)
       = Some example_archived
   \<and> fst (ControllableHttpArchiveFetch_call example_env (SetReplayMode example_fetcher) example_request []
            (snd (ControllableHttpArchiveFetch_call example_env example_fetcher example_request []
                    empty_world)))
       = Some example_archived"
proof -
  have h1: "example_fetcher = ControllableHttpArchiveFetch_init False False True False False"
    by (simp add: example_fetcher_def)
  have f: "fst (ControllableHttpArchiveFetch_call example_env example_fetcher example_request []
                  empty_world) = Some example_archived"
    by code_simp
  then have h2: "ControllableHttpArchiveFetch_call example_env example_fetcher example_request []
                   empty_world
                 = (Some example_archived,
                    snd (ControllableHttpArchiveFetch_call example_env example_fetcher example_request
                           [] empty_world))"
    by (metis prod.collapse)
  from record_then_replay[OF h1 h2, of "[]"]
  have g: "fst (ControllableHttpArchiveFetch_call example_env (SetReplayMode example_fetcher)
                  example_request []
                  (snd (ControllableHttpArchiveFetch_call example_env example_fetcher example_request
                          [] empty_world)))
           = Some example_archived"
    by blast
  show ?thesis by (intro conjI) (rule h1, rule f, rule g)
qed

end
